theory Spec2Isabelle
  imports Complex_Main
begin

section \<open>Values, exceptions and the outside world\<close>

text \<open>
  The program (\<^verbatim>\<open>model.py\<close>, \<^verbatim>\<open>main.py\<close>) is a console client of a Dgraph
  database. Everything it computes is either text (queries), JSON-like Python objects
  (mutations, decoded responses) or effects on the outside world: files opened,
  transactions opened, queried, mutated, committed and discarded, lines printed.

  Decoded JSON and the Python objects handed to \<^verbatim>\<open>txn.mutate\<close> share one datatype.
  \<open>JNull\<close> is Python's \<^verbatim>\<open>None\<close>. A \<^verbatim>\<open>dict\<close> is an association list read
  with \<open>map_of\<close>.
\<close>

abbreviation dq :: char where "dq \<equiv> CHR 0x22"
abbreviation sq :: char where "sq \<equiv> CHR 0x27"
abbreviation bsl :: char where "bsl \<equiv> CHR 0x5C"

datatype json =
    JNull
  | JBool bool
  | JInt int
  | JFloat real
  | JStr string
  | JArr "json list"
  | JObj "(string \<times> json) list"

datatype exn =
    FileNotFoundError "string list"
  | KeyError string
  | AttributeError
  | TypeError
  | IndexError
  | ValueError
  | JSONDecodeError
  | ClientError string

text \<open>Python truthiness, as \<^verbatim>\<open>if not items\<close> and \<^verbatim>\<open>if results\<close> read it.\<close>

fun falsy :: "json \<Rightarrow> bool" where
  "falsy JNull = True"
| "falsy (JBool b) = (\<not> b)"
| "falsy (JInt i) = (i = 0)"
| "falsy (JFloat r) = (r = 0)"
| "falsy (JStr s) = (s = [])"
| "falsy (JArr xs) = (xs = [])"
| "falsy (JObj kvs) = (kvs = [])"

text \<open>\<^verbatim>\<open>d.get(key, default)\<close>: only a dict has the method.\<close>

fun py_get :: "json \<Rightarrow> string \<Rightarrow> json \<Rightarrow> exn + json" where
  "py_get (JObj kvs) k d = Inr (case map_of kvs k of None \<Rightarrow> d | Some v \<Rightarrow> v)"
| "py_get _ k d = Inl AttributeError"

text \<open>\<^verbatim>\<open>items[0]\<close> on a value that passed the truthiness test.\<close>

fun py_index0 :: "json \<Rightarrow> exn + json" where
  "py_index0 (JArr xs) = (case xs of [] \<Rightarrow> Inl IndexError | x # _ \<Rightarrow> Inr x)"
| "py_index0 (JStr s) = (case s of [] \<Rightarrow> Inl IndexError | c # _ \<Rightarrow> Inr (JStr [c]))"
| "py_index0 (JObj kvs) = Inl (KeyError ''0'')"
| "py_index0 _ = Inl TypeError"

subsection \<open>\<^verbatim>\<open>_first_uid_from_query\<close>\<close>

text \<open>
  \<^verbatim>\<open>json.loads\<close> is the standard library's parser; it is a parameter \<open>loads\<close>
  that either raises or returns the decoded value. \<open>first_uid_body\<close> is the body of the
  \<^verbatim>\<open>try\<close>; \<open>first_uid_from_query\<close> adds the \<^verbatim>\<open>except Exception: return None\<close>.
\<close>

definition first_uid_body :: "(string \<Rightarrow> exn + json) \<Rightarrow> string \<Rightarrow> string \<Rightarrow> exn + json" where
  "first_uid_body loads json_str key =
     (case loads json_str of
        Inl e \<Rightarrow> Inl e
      | Inr data \<Rightarrow>
          (case py_get data key (JArr []) of
             Inl e \<Rightarrow> Inl e
           | Inr items \<Rightarrow>
               if falsy items then Inr JNull
               else (case py_index0 items of
                       Inl e \<Rightarrow> Inl e
                     | Inr item \<Rightarrow> py_get item ''uid'' JNull)))"

definition first_uid_from_query :: "(string \<Rightarrow> exn + json) \<Rightarrow> string \<Rightarrow> string \<Rightarrow> exn + json" where
  "first_uid_from_query loads json_str key =
     (case first_uid_body loads json_str key of
        Inl e \<Rightarrow> Inr JNull
      | Inr v \<Rightarrow> Inr v)"

subsection \<open>Decimal rendering of integers\<close>

text \<open>\<^verbatim>\<open>str(i)\<close> and the formatting of an \<^verbatim>\<open>int\<close> inside an f-string.\<close>

definition digit_char :: "nat \<Rightarrow> char" where
  "digit_char d = char_of (48 + d)"

function show_nat :: "nat \<Rightarrow> string" where
  "show_nat n = (if n < 10 then [digit_char n] else show_nat (n div 10) @ [digit_char (n mod 10)])"
  by pat_completeness auto
termination
  by (relation "measure (\<lambda>n. n)") auto

definition show_int :: "int \<Rightarrow> string" where
  "show_int i = (if i < 0 then CHR ''-'' # show_nat (nat (- i)) else show_nat (nat i))"

subsection \<open>The world: files, the database client, the console\<close>

text \<open>
  A CSV file is the list of rows \<^verbatim>\<open>csv.DictReader\<close> yields, each row mapping the
  header's column names to the cell text. The database server is an external collaborator:
  its state is an arbitrary type \<open>'db\<close> and the client talks to it through three calls,
  each of which may raise. Every effect the program has is appended to a trace.
\<close>

type_synonym row = "(string \<times> string) list"

datatype mutation = SetObj json | DelObj json

datatype line =
    Text string
  | Loading string json
  | ErrorLoadingData exn
  | Traceback exn
  | Dump json

datatype event =
    TxnOpen nat bool
  | Query nat string
  | Mutate nat mutation
  | Commit nat
  | Discard nat
  | FileOpen string
  | Print line

record 'db world =
  files :: "string \<Rightarrow> row list option"
  server :: 'db
  next_txn :: nat
  trace :: "event list"

record 'db client =
  run_query :: "'db \<Rightarrow> nat \<Rightarrow> string \<Rightarrow> (exn + string) \<times> 'db"
  run_mutate :: "'db \<Rightarrow> nat \<Rightarrow> mutation \<Rightarrow> (exn + (string \<times> string) list) \<times> 'db"
  run_commit :: "'db \<Rightarrow> nat \<Rightarrow> (exn + unit) \<times> 'db"

type_synonym ('a, 'db) prog = "'db world \<Rightarrow> (exn + 'a) \<times> 'db world"

definition ret :: "'a \<Rightarrow> ('a, 'db) prog" where
  "ret x w = (Inr x, w)"

definition raise_exn :: "exn \<Rightarrow> ('a, 'db) prog" where
  "raise_exn e w = (Inl e, w)"

definition lift :: "exn + 'a \<Rightarrow> ('a, 'db) prog" where
  "lift r w = (r, w)"

definition and_then :: "('a, 'db) prog \<Rightarrow> ('a \<Rightarrow> ('b, 'db) prog) \<Rightarrow> ('b, 'db) prog" where
  "and_then m f w = (case m w of (Inl e, w1) \<Rightarrow> (Inl e, w1) | (Inr x, w1) \<Rightarrow> f x w1)"

text \<open>\<^verbatim>\<open>try: body finally: fin\<close>: \<open>fin\<close> always runs; an exception of \<open>fin\<close> replaces the outcome.\<close>

definition try_finally :: "('a, 'db) prog \<Rightarrow> (unit, 'db) prog \<Rightarrow> ('a, 'db) prog" where
  "try_finally body fin w =
     (case body w of (r, w1) \<Rightarrow>
        (case fin w1 of (Inl e, w2) \<Rightarrow> (Inl e, w2) | (Inr u, w2) \<Rightarrow> (r, w2)))"

text \<open>\<^verbatim>\<open>try: body except Exception as e: handler\<close>.\<close>

definition try_except :: "('a, 'db) prog \<Rightarrow> (exn \<Rightarrow> ('a, 'db) prog) \<Rightarrow> ('a, 'db) prog" where
  "try_except body handler w =
     (case body w of (Inl e, w1) \<Rightarrow> handler e w1 | (Inr x, w1) \<Rightarrow> (Inr x, w1))"

definition emit :: "event \<Rightarrow> (unit, 'db) prog" where
  "emit ev w = (Inr (), w\<lparr>trace := trace w @ [ev]\<rparr>)"

definition print_text :: "string \<Rightarrow> (unit, 'db) prog" where
  "print_text s = emit (Print (Text s))"

text \<open>
  \<^verbatim>\<open>client.txn(read_only=ro)\<close> creates a handle locally; \<^verbatim>\<open>txn.query\<close>,
  \<^verbatim>\<open>txn.mutate\<close> and \<^verbatim>\<open>txn.commit\<close> go to the server; \<^verbatim>\<open>txn.discard\<close> on the
  paths of this program only marks the handle finished.
\<close>

definition client_txn :: "bool \<Rightarrow> (nat, 'db) prog" where
  "client_txn ro w =
     (Inr (next_txn w), w\<lparr>next_txn := next_txn w + 1, trace := trace w @ [TxnOpen (next_txn w) ro]\<rparr>)"

definition txn_query :: "'db client \<Rightarrow> nat \<Rightarrow> string \<Rightarrow> (string, 'db) prog" where
  "txn_query cl t q w =
     (case run_query cl (server w) t q of
        (r, s) \<Rightarrow> (r, w\<lparr>server := s, trace := trace w @ [Query t q]\<rparr>))"

definition txn_mutate :: "'db client \<Rightarrow> nat \<Rightarrow> mutation \<Rightarrow> ((string \<times> string) list, 'db) prog" where
  "txn_mutate cl t m w =
     (case run_mutate cl (server w) t m of
        (r, s) \<Rightarrow> (r, w\<lparr>server := s, trace := trace w @ [Mutate t m]\<rparr>))"

definition txn_commit :: "'db client \<Rightarrow> nat \<Rightarrow> (unit, 'db) prog" where
  "txn_commit cl t w =
     (case run_commit cl (server w) t of
        (r, s) \<Rightarrow> (r, w\<lparr>server := s, trace := trace w @ [Commit t]\<rparr>))"

definition txn_discard :: "nat \<Rightarrow> (unit, 'db) prog" where
  "txn_discard t = emit (Discard t)"

text \<open>\<^verbatim>\<open>open(file_path, 'r')\<close> with \<^verbatim>\<open>csv.DictReader\<close>, and \<^verbatim>\<open>row[col]\<close>.\<close>

definition open_csv :: "string \<Rightarrow> (row list, 'db) prog" where
  "open_csv path w =
     (case files w path of
        None \<Rightarrow> (Inl (FileNotFoundError [path]), w\<lparr>trace := trace w @ [FileOpen path]\<rparr>)
      | Some rows \<Rightarrow> (Inr rows, w\<lparr>trace := trace w @ [FileOpen path]\<rparr>))"

definition row_get :: "row \<Rightarrow> string \<Rightarrow> exn + string" where
  "row_get row col = (case map_of row col of None \<Rightarrow> Inl (KeyError col) | Some v \<Rightarrow> Inr v)"

subsection \<open>Node loaders\<close>

text \<open>
  \<^verbatim>\<open>load_comments\<close>, \<^verbatim>\<open>load_playlists\<close>, \<^verbatim>\<open>load_users\<close> and \<^verbatim>\<open>load_videos\<close>
  are four copies of one function that differ in the blank-node prefix, the
  \<^verbatim>\<open>dgraph.type\<close>, the columns copied and the word in the progress line.
\<close>

fun row_fields :: "row \<Rightarrow> string list \<Rightarrow> exn + (string \<times> json) list" where
  "row_fields row [] = Inr []"
| "row_fields row (c # cs) =
     (case row_get row c of
        Inl e \<Rightarrow> Inl e
      | Inr v \<Rightarrow> (case row_fields row cs of
                   Inl e \<Rightarrow> Inl e
                 | Inr kvs \<Rightarrow> Inr ((c, JStr v) # kvs)))"

definition node_record :: "string \<Rightarrow> string \<Rightarrow> nat \<Rightarrow> (string \<times> json) list \<Rightarrow> json" where
  "node_record tag dtype i kvs =
     JObj ((''uid'', JStr (''_:'' @ tag @ show_nat i)) # (''dgraph.type'', JStr dtype) # kvs)"

fun node_records :: "string \<Rightarrow> string \<Rightarrow> string list \<Rightarrow> nat \<Rightarrow> row list \<Rightarrow> exn + json list" where
  "node_records tag dtype cols i [] = Inr []"
| "node_records tag dtype cols i (row # rows) =
     (case row_fields row cols of
        Inl e \<Rightarrow> Inl e
      | Inr kvs \<Rightarrow> (case node_records tag dtype cols (i + 1) rows of
                     Inl e \<Rightarrow> Inl e
                   | Inr recs \<Rightarrow> Inr (node_record tag dtype i kvs # recs)))"

definition load_nodes ::
  "'db client \<Rightarrow> string \<Rightarrow> string \<Rightarrow> string \<Rightarrow> string list \<Rightarrow> string
    \<Rightarrow> ((string \<times> string) list, 'db) prog" where
  "load_nodes cl tag label dtype cols file_path =
     and_then (client_txn False) (\<lambda>txn.
       try_finally
         (and_then
            (and_then (open_csv file_path) (\<lambda>rows.
             and_then (lift (node_records tag dtype cols 1 rows)) (\<lambda>recs.
             and_then (emit (Print (Loading label (JArr recs)))) (\<lambda>_.
             txn_mutate cl txn (SetObj (JArr recs))))))
            (\<lambda>uids. and_then (txn_commit cl txn) (\<lambda>_. ret uids)))
         (txn_discard txn))"

definition load_comments :: "'db client \<Rightarrow> string \<Rightarrow> ((string \<times> string) list, 'db) prog" where
  "load_comments cl file_path =
     load_nodes cl ''c'' ''comments'' ''Comment'' [''text''] file_path"

definition load_playlists :: "'db client \<Rightarrow> string \<Rightarrow> ((string \<times> string) list, 'db) prog" where
  "load_playlists cl file_path =
     load_nodes cl ''p'' ''playlists'' ''Playlist'' [''title'', ''visibility''] file_path"

definition load_users :: "'db client \<Rightarrow> string \<Rightarrow> ((string \<times> string) list, 'db) prog" where
  "load_users cl file_path =
     load_nodes cl ''u'' ''users'' ''User''
       [''username'', ''email'', ''location.lat'', ''location.long''] file_path"

definition load_videos :: "'db client \<Rightarrow> string \<Rightarrow> ((string \<times> string) list, 'db) prog" where
  "load_videos cl file_path =
     load_nodes cl ''v'' ''videos'' ''Video''
       [''title'', ''description'', ''duration'', ''date_uploaded''] file_path"

subsection \<open>Relationship loaders\<close>

text \<open>
  The nine relationship loaders share one shape: read two columns of the row, look each
  endpoint up with a read-only query, skip the row with a warning when a lookup yields no
  uid, otherwise write one edge in a transaction of its own. They differ in the columns,
  the text of the two queries, the key of the response, the warnings, the edge predicate
  and the progress line. \<^verbatim>\<open>load_user_posts_video\<close> and \<^verbatim>\<open>load_user_saves_video\<close>
  send both queries before testing the first result (\<open>both_first\<close>);
  \<^verbatim>\<open>load_comment_replies_comment\<close> hangs the edge on the second endpoint
  (\<open>subject_second\<close>).
\<close>

definition q_eq :: "string \<Rightarrow> string \<Rightarrow> string \<Rightarrow> string" where
  "q_eq block attr v =
     ''{ '' @ block @ ''(func: eq('' @ attr @ '', '' @ [dq] @ v @ [dq] @ '')) { uid } }''"

definition q_anyoftext :: "string \<Rightarrow> string \<Rightarrow> string \<Rightarrow> string" where
  "q_anyoftext block attr v =
     ''{ '' @ block @ ''(func: anyoftext('' @ attr @ '', '' @ [dq] @ v @ [dq] @ '')) { uid } }''"

definition q_eq_compact :: "string \<Rightarrow> string \<Rightarrow> string \<Rightarrow> string" where
  "q_eq_compact block attr v =
     ''{'' @ block @ ''(func: eq('' @ attr @ '', '' @ [dq] @ v @ [dq] @ '')){uid}}''"

definition warn_not_found :: "string \<Rightarrow> string \<Rightarrow> string \<Rightarrow> string" where
  "warn_not_found what attr v =
     ''Warning: '' @ what @ '' not found for '' @ attr @ '': '' @ [sq] @ v @ [sq]
       @ '', skipping relation''"

definition generating :: "string \<Rightarrow> string \<Rightarrow> string \<Rightarrow> string" where
  "generating what a b =
     ''Generating relationship '' @ what @ '': '' @ [sq] @ a @ [sq] @ '' -> '' @ [sq] @ b @ [sq]"

record rel_spec =
  col_a :: string
  col_b :: string
  query_a :: "string \<Rightarrow> string"
  query_b :: "string \<Rightarrow> string"
  key_a :: string
  key_b :: string
  warn_a :: "string \<Rightarrow> string"
  warn_b :: "string \<Rightarrow> string"
  both_first :: bool
  subject_second :: bool
  predicate :: string
  progress :: "string \<Rightarrow> string \<Rightarrow> string"

definition edge_mutation :: "rel_spec \<Rightarrow> json \<Rightarrow> json \<Rightarrow> mutation" where
  "edge_mutation sp uid_a uid_b =
     (if subject_second sp
      then SetObj (JObj [(''uid'', uid_b), (predicate sp, JArr [JObj [(''uid'', uid_a)]])])
      else SetObj (JObj [(''uid'', uid_a), (predicate sp, JArr [JObj [(''uid'', uid_b)]])]))"

text \<open>\<^verbatim>\<open>client.txn(read_only=True).query(q)\<close>: the handle is dropped, never discarded.\<close>

definition lookup_query :: "'db client \<Rightarrow> string \<Rightarrow> (string, 'db) prog" where
  "lookup_query cl q = and_then (client_txn True) (\<lambda>txn. txn_query cl txn q)"

definition create_edge :: "'db client \<Rightarrow> rel_spec \<Rightarrow> string \<Rightarrow> string \<Rightarrow> json \<Rightarrow> json \<Rightarrow> (unit, 'db) prog" where
  "create_edge cl sp a b uid_a uid_b =
     and_then (client_txn False) (\<lambda>txn.
       try_finally
         (and_then (print_text (progress sp a b)) (\<lambda>_.
          and_then (txn_mutate cl txn (edge_mutation sp uid_a uid_b)) (\<lambda>_.
          txn_commit cl txn)))
         (txn_discard txn))"

text \<open>One iteration of the \<^verbatim>\<open>for row in reader\<close> loop; \<^verbatim>\<open>continue\<close> is \<open>ret ()\<close>.\<close>

definition rel_row ::
  "'db client \<Rightarrow> (string \<Rightarrow> exn + json) \<Rightarrow> rel_spec \<Rightarrow> row \<Rightarrow> (unit, 'db) prog" where
  "rel_row cl loads sp row =
     and_then (lift (row_get row (col_a sp))) (\<lambda>a.
     and_then (lift (row_get row (col_b sp))) (\<lambda>b.
       if both_first sp then
         and_then (lookup_query cl (query_a sp a)) (\<lambda>res_a.
         and_then (lookup_query cl (query_b sp b)) (\<lambda>res_b.
         and_then (lift (first_uid_from_query loads res_a (key_a sp))) (\<lambda>uid_a.
           if uid_a = JNull then print_text (warn_a sp a)
           else
             and_then (lift (first_uid_from_query loads res_b (key_b sp))) (\<lambda>uid_b.
               if uid_b = JNull then print_text (warn_b sp b)
               else create_edge cl sp a b uid_a uid_b))))
       else
         and_then (lookup_query cl (query_a sp a)) (\<lambda>res_a.
         and_then (lift (first_uid_from_query loads res_a (key_a sp))) (\<lambda>uid_a.
           if uid_a = JNull then print_text (warn_a sp a)
           else
             and_then (lookup_query cl (query_b sp b)) (\<lambda>res_b.
             and_then (lift (first_uid_from_query loads res_b (key_b sp))) (\<lambda>uid_b.
               if uid_b = JNull then print_text (warn_b sp b)
               else create_edge cl sp a b uid_a uid_b))))))"

fun rel_rows ::
  "'db client \<Rightarrow> (string \<Rightarrow> exn + json) \<Rightarrow> rel_spec \<Rightarrow> row list \<Rightarrow> (unit, 'db) prog" where
  "rel_rows cl loads sp [] = ret ()"
| "rel_rows cl loads sp (row # rows) =
     and_then (rel_row cl loads sp row) (\<lambda>_. rel_rows cl loads sp rows)"

definition load_relationship ::
  "'db client \<Rightarrow> (string \<Rightarrow> exn + json) \<Rightarrow> rel_spec \<Rightarrow> string \<Rightarrow> (unit, 'db) prog" where
  "load_relationship cl loads sp file_path =
     and_then (open_csv file_path) (\<lambda>rows. rel_rows cl loads sp rows)"

definition comment_replies_comment :: rel_spec where
  "comment_replies_comment =
     \<lparr> col_a = ''comment_text'', col_b = ''replied_to_text'',
       query_a = q_eq_compact ''comment'' ''text'',
       query_b = q_eq_compact ''comment'' ''text'',
       key_a = ''comment'', key_b = ''comment'',
       warn_a = warn_not_found ''comment'' ''text'',
       warn_b = warn_not_found ''replied-to comment'' ''text'',
       both_first = False, subject_second = True,
       predicate = ''replies_to_c_c'',
       progress = (\<lambda>a b. ''Generating relationship comment replies to comment...'') \<rparr>"

definition comment_replies_video :: rel_spec where
  "comment_replies_video =
     \<lparr> col_a = ''comment_text'', col_b = ''video_title'',
       query_a = q_anyoftext ''comment'' ''text'',
       query_b = q_eq ''video'' ''title'',
       key_a = ''comment'', key_b = ''video'',
       warn_a = warn_not_found ''comment'' ''text'',
       warn_b = warn_not_found ''video'' ''title'',
       both_first = False, subject_second = False,
       predicate = ''replies_to_c_v'',
       progress = generating ''comment -> video'' \<rparr>"

definition playlist_contains_video :: rel_spec where
  "playlist_contains_video =
     \<lparr> col_a = ''playlist_title'', col_b = ''video_title'',
       query_a = q_eq ''playlist'' ''title'',
       query_b = q_eq ''video'' ''title'',
       key_a = ''playlist'', key_b = ''video'',
       warn_a = warn_not_found ''playlist'' ''title'',
       warn_b = warn_not_found ''video'' ''title'',
       both_first = False, subject_second = False,
       predicate = ''contains'',
       progress = generating ''playlist -> video'' \<rparr>"

definition user_comments :: rel_spec where
  "user_comments =
     \<lparr> col_a = ''username'', col_b = ''comment_text'',
       query_a = q_eq ''user'' ''username'',
       query_b = q_anyoftext ''comment'' ''text'',
       key_a = ''user'', key_b = ''comment'',
       warn_a = warn_not_found ''user'' ''username'',
       warn_b = warn_not_found ''comment'' ''text'',
       both_first = False, subject_second = False,
       predicate = ''comments'',
       progress = generating ''user -> comment'' \<rparr>"

definition user_creates_playlist :: rel_spec where
  "user_creates_playlist =
     \<lparr> col_a = ''username'', col_b = ''title'',
       query_a = q_eq ''user'' ''username'',
       query_b = q_eq ''playlist'' ''title'',
       key_a = ''user'', key_b = ''playlist'',
       warn_a = warn_not_found ''user'' ''username'',
       warn_b = warn_not_found ''playlist'' ''title'',
       both_first = False, subject_second = False,
       predicate = ''creates'',
       progress = generating ''user -> creates'' \<rparr>"

definition user_likes_comment :: rel_spec where
  "user_likes_comment =
     \<lparr> col_a = ''username'', col_b = ''comment_text'',
       query_a = q_eq ''user'' ''username'',
       query_b = q_anyoftext ''comment'' ''text'',
       key_a = ''user'', key_b = ''comment'',
       warn_a = warn_not_found ''user'' ''username'',
       warn_b = warn_not_found ''comment'' ''text'',
       both_first = False, subject_second = False,
       predicate = ''likes_u_c'',
       progress = generating ''user -> likes_comment'' \<rparr>"

definition user_likes_video :: rel_spec where
  "user_likes_video =
     \<lparr> col_a = ''username'', col_b = ''title'',
       query_a = q_eq ''user'' ''username'',
       query_b = q_eq ''video'' ''title'',
       key_a = ''user'', key_b = ''video'',
       warn_a = warn_not_found ''user'' ''username'',
       warn_b = warn_not_found ''video'' ''title'',
       both_first = False, subject_second = False,
       predicate = ''likes_u_v'',
       progress = generating ''user -> likes_video'' \<rparr>"

definition user_posts_video :: rel_spec where
  "user_posts_video =
     \<lparr> col_a = ''username'', col_b = ''title'',
       query_a = q_eq ''user'' ''username'',
       query_b = q_eq ''video'' ''title'',
       key_a = ''user'', key_b = ''video'',
       warn_a = warn_not_found ''user'' ''username'',
       warn_b = warn_not_found ''video'' ''title'',
       both_first = True, subject_second = False,
       predicate = ''posts'',
       progress = generating ''user -> posts'' \<rparr>"

definition user_saves_video :: rel_spec where
  "user_saves_video =
     \<lparr> col_a = ''username'', col_b = ''title'',
       query_a = q_eq ''user'' ''username'',
       query_b = q_eq ''video'' ''title'',
       key_a = ''user'', key_b = ''video'',
       warn_a = warn_not_found ''user'' ''username'',
       warn_b = warn_not_found ''video'' ''title'',
       both_first = True, subject_second = False,
       predicate = ''saves'',
       progress = generating ''user -> saves'' \<rparr>"

definition load_comment_replies_comment where
  "load_comment_replies_comment cl loads = load_relationship cl loads comment_replies_comment"

definition load_comment_replies_video where
  "load_comment_replies_video cl loads = load_relationship cl loads comment_replies_video"

definition load_playlist_contains_video where
  "load_playlist_contains_video cl loads = load_relationship cl loads playlist_contains_video"

definition load_user_comments where
  "load_user_comments cl loads = load_relationship cl loads user_comments"

definition load_user_creates_playlist where
  "load_user_creates_playlist cl loads = load_relationship cl loads user_creates_playlist"

definition load_user_likes_comment where
  "load_user_likes_comment cl loads = load_relationship cl loads user_likes_comment"

definition load_user_likes_video where
  "load_user_likes_video cl loads = load_relationship cl loads user_likes_video"

definition load_user_posts_video where
  "load_user_posts_video cl loads = load_relationship cl loads user_posts_video"

definition load_user_saves_video where
  "load_user_saves_video cl loads = load_relationship cl loads user_saves_video"

subsection \<open>\<^verbatim>\<open>create_data\<close>\<close>

text \<open>
  \<^verbatim>\<open>os.path.join\<close> on POSIX paths. The project root (computed from \<^verbatim>\<open>__file__\<close>)
  is the parameter \<open>project_root\<close>; \<^verbatim>\<open>os.path.isfile\<close> reads the world's files.
\<close>

definition path_join :: "string \<Rightarrow> string \<Rightarrow> string" where
  "path_join a b =
     (if b \<noteq> [] \<and> hd b = CHR ''/'' then b
      else if a = [] \<or> last a = CHR ''/'' then a @ b
      else a @ ''/'' @ b)"

definition NODES_DATA_PATH :: "string \<Rightarrow> string" where
  "NODES_DATA_PATH project_root = path_join (path_join project_root ''data'') ''nodes''"

definition EDGES_DATA_PATH :: "string \<Rightarrow> string" where
  "EDGES_DATA_PATH project_root = path_join (path_join project_root ''data'') ''edges''"

definition COMMENTS_PATH :: "string \<Rightarrow> string" where
  "COMMENTS_PATH project_root = path_join (NODES_DATA_PATH project_root) ''comments.csv''"

definition PLAYLISTS_PATH :: "string \<Rightarrow> string" where
  "PLAYLISTS_PATH project_root = path_join (NODES_DATA_PATH project_root) ''playlists.csv''"

definition USERS_PATH :: "string \<Rightarrow> string" where
  "USERS_PATH project_root = path_join (NODES_DATA_PATH project_root) ''users.csv''"

definition VIDEOS_PATH :: "string \<Rightarrow> string" where
  "VIDEOS_PATH project_root = path_join (NODES_DATA_PATH project_root) ''videos.csv''"

definition COMMENT_REPLIES_COMMENT :: "string \<Rightarrow> string" where
  "COMMENT_REPLIES_COMMENT project_root = path_join (EDGES_DATA_PATH project_root) ''comment_replies_comment.csv''"

definition COMMENT_REPLIES_VIDEO :: "string \<Rightarrow> string" where
  "COMMENT_REPLIES_VIDEO project_root = path_join (EDGES_DATA_PATH project_root) ''comment_replies_video.csv''"

definition PLAYLIST_CONTAINS_VIDEO :: "string \<Rightarrow> string" where
  "PLAYLIST_CONTAINS_VIDEO project_root = path_join (EDGES_DATA_PATH project_root) ''playlist_contains_video.csv''"

definition USER_COMMENTS :: "string \<Rightarrow> string" where
  "USER_COMMENTS project_root = path_join (EDGES_DATA_PATH project_root) ''user_comments.csv''"

definition USER_CREATES_PLAYLIST :: "string \<Rightarrow> string" where
  "USER_CREATES_PLAYLIST project_root = path_join (EDGES_DATA_PATH project_root) ''user_creates_playlist.csv''"

definition USER_LIKES_COMMENT :: "string \<Rightarrow> string" where
  "USER_LIKES_COMMENT project_root = path_join (EDGES_DATA_PATH project_root) ''user_likes_comment.csv''"

definition USER_LIKES_VIDEO :: "string \<Rightarrow> string" where
  "USER_LIKES_VIDEO project_root = path_join (EDGES_DATA_PATH project_root) ''user_likes_video.csv''"

definition USER_POSTS_VIDEO :: "string \<Rightarrow> string" where
  "USER_POSTS_VIDEO project_root = path_join (EDGES_DATA_PATH project_root) ''user_posts_video.csv''"

definition USER_SAVES_VIDEO :: "string \<Rightarrow> string" where
  "USER_SAVES_VIDEO project_root = path_join (EDGES_DATA_PATH project_root) ''user_saves_video.csv''"

definition required_files :: "string \<Rightarrow> string list" where
  "required_files project_root =
     [COMMENTS_PATH project_root, PLAYLISTS_PATH project_root, USERS_PATH project_root, VIDEOS_PATH project_root,
      COMMENT_REPLIES_COMMENT project_root, COMMENT_REPLIES_VIDEO project_root, PLAYLIST_CONTAINS_VIDEO project_root,
      USER_COMMENTS project_root, USER_CREATES_PLAYLIST project_root, USER_LIKES_COMMENT project_root,
      USER_LIKES_VIDEO project_root, USER_POSTS_VIDEO project_root, USER_SAVES_VIDEO project_root]"

definition missing_files :: "string \<Rightarrow> 'db world \<Rightarrow> string list" where
  "missing_files project_root w = filter (\<lambda>f. files w f = None) (required_files project_root)"

definition discard_result :: "('a, 'db) prog \<Rightarrow> (unit, 'db) prog" where
  "discard_result m = and_then m (\<lambda>_. ret ())"

text \<open>The thirteen calls of \<^verbatim>\<open>create_data\<close>, in the order written.\<close>

definition load_steps ::
  "'db client \<Rightarrow> (string \<Rightarrow> exn + json) \<Rightarrow> string \<Rightarrow> (unit, 'db) prog list" where
  "load_steps cl loads project_root =
     [discard_result (load_comments cl (COMMENTS_PATH project_root)),
      discard_result (load_playlists cl (PLAYLISTS_PATH project_root)),
      discard_result (load_users cl (USERS_PATH project_root)),
      discard_result (load_videos cl (VIDEOS_PATH project_root)),
      load_comment_replies_comment cl loads (COMMENT_REPLIES_COMMENT project_root),
      load_comment_replies_video cl loads (COMMENT_REPLIES_VIDEO project_root),
      load_playlist_contains_video cl loads (PLAYLIST_CONTAINS_VIDEO project_root),
      load_user_comments cl loads (USER_COMMENTS project_root),
      load_user_creates_playlist cl loads (USER_CREATES_PLAYLIST project_root),
      load_user_likes_comment cl loads (USER_LIKES_COMMENT project_root),
      load_user_likes_video cl loads (USER_LIKES_VIDEO project_root),
      load_user_posts_video cl loads (USER_POSTS_VIDEO project_root),
      load_user_saves_video cl loads (USER_SAVES_VIDEO project_root)]"

fun run_steps :: "(unit, 'db) prog list \<Rightarrow> (unit, 'db) prog" where
  "run_steps [] = ret ()"
| "run_steps (step # steps) = and_then step (\<lambda>_. run_steps steps)"

definition log_load_error :: "exn \<Rightarrow> (unit, 'db) prog" where
  "log_load_error e =
     and_then (emit (Print (ErrorLoadingData e))) (\<lambda>_. emit (Print (Traceback e)))"

definition create_data ::
  "'db client \<Rightarrow> (string \<Rightarrow> exn + json) \<Rightarrow> string \<Rightarrow> (unit, 'db) prog" where
  "create_data cl loads project_root =
     try_except
       (\<lambda>w. let missing = missing_files project_root w in
             if missing \<noteq> [] then raise_exn (FileNotFoundError missing) w
             else run_steps (load_steps cl loads project_root) w)
       log_load_error"

subsection \<open>Queries\<close>

text \<open>\<^verbatim>\<open>s.replace('"', '\\"')\<close>\<close>

definition escape_quotes :: "string \<Rightarrow> string" where
  "escape_quotes s = concat (map (\<lambda>c. if c = dq then [bsl, dq] else [c]) s)"

text \<open>
  The tail every query function shares: open a read-only transaction, run the query,
  decode the response and return \<^verbatim>\<open>data.get(key, [])\<close>, discarding in \<^verbatim>\<open>finally\<close>.
\<close>

definition read_query ::
  "'db client \<Rightarrow> (string \<Rightarrow> exn + json) \<Rightarrow> string \<Rightarrow> string \<Rightarrow> (json, 'db) prog" where
  "read_query cl loads q key =
     and_then (client_txn True) (\<lambda>txn.
       try_finally
         (and_then (txn_query cl txn q) (\<lambda>res.
          and_then (lift (loads res)) (\<lambda>data.
          lift (py_get data key (JArr [])))))
         (txn_discard txn))"

definition query_by_text_q :: "string \<Rightarrow> string" where
  "query_by_text_q text_search =
     ''{ comments(func: anyoftext(text, '' @ [dq] @ escape_quotes text_search @ [dq]
       @ '')) { uid text } }''"

definition query_by_text ::
  "'db client \<Rightarrow> (string \<Rightarrow> exn + json) \<Rightarrow> string \<Rightarrow> (json, 'db) prog" where
  "query_by_text cl loads text_search =
     read_query cl loads (query_by_text_q text_search) ''comments''"

definition query_video_posters_reverse_q :: "string \<Rightarrow> string" where
  "query_video_posters_reverse_q video_title =
     ''{ video_posters(func: eq(title, '' @ [dq] @ escape_quotes video_title @ [dq]
       @ '')) { uid title ~posts { uid username } } }''"

definition query_video_posters_reverse ::
  "'db client \<Rightarrow> (string \<Rightarrow> exn + json) \<Rightarrow> string \<Rightarrow> (json, 'db) prog" where
  "query_video_posters_reverse cl loads video_title =
     read_query cl loads (query_video_posters_reverse_q video_title) ''video_posters''"

definition query_videos_paged_q :: "int \<Rightarrow> int \<Rightarrow> string" where
  "query_videos_paged_q first offset =
     ''{ paged_videos(func: type(Video), first: '' @ show_int first @ '', offset: ''
       @ show_int offset @ '', orderasc: title) { uid title } }''"

definition query_videos_paged ::
  "'db client \<Rightarrow> (string \<Rightarrow> exn + json) \<Rightarrow> int \<Rightarrow> int \<Rightarrow> (json, 'db) prog" where
  "query_videos_paged cl loads first offset =
     read_query cl loads (query_videos_paged_q first offset) ''paged_videos''"

subsection \<open>\<^verbatim>\<open>delete_comment\<close>\<close>

text \<open>
  The comprehension \<^verbatim>\<open>[c['uid'] for c in comments if 'uid' in c]\<close>: iteration,
  the membership test and the subscript, each with what Python does on a value that is
  not a list of dicts.
\<close>

fun py_iter :: "json \<Rightarrow> exn + json list" where
  "py_iter (JArr xs) = Inr xs"
| "py_iter (JStr s) = Inr (map (\<lambda>c. JStr [c]) s)"
| "py_iter (JObj kvs) = Inr (map JStr (remdups (map fst kvs)))"
| "py_iter _ = Inl TypeError"

fun contains_str :: "string \<Rightarrow> string \<Rightarrow> bool" where
  "contains_str p [] = (p = [])"
| "contains_str p (c # cs) = (take (length p) (c # cs) = p \<or> contains_str p cs)"

fun py_has_uid :: "json \<Rightarrow> exn + bool" where
  "py_has_uid (JObj kvs) = Inr (map_of kvs ''uid'' \<noteq> None)"
| "py_has_uid (JStr s) = Inr (contains_str ''uid'' s)"
| "py_has_uid (JArr xs) = Inr (JStr ''uid'' \<in> set xs)"
| "py_has_uid _ = Inl TypeError"

fun py_subscript_uid :: "json \<Rightarrow> exn + json" where
  "py_subscript_uid (JObj kvs) =
     (case map_of kvs ''uid'' of None \<Rightarrow> Inl (KeyError ''uid'') | Some v \<Rightarrow> Inr v)"
| "py_subscript_uid _ = Inl TypeError"

fun collect_uids :: "json list \<Rightarrow> exn + json list" where
  "collect_uids [] = Inr []"
| "collect_uids (c # cs) =
     (case py_has_uid c of
        Inl e \<Rightarrow> Inl e
      | Inr has \<Rightarrow>
          if has then
            (case py_subscript_uid c of
               Inl e \<Rightarrow> Inl e
             | Inr u \<Rightarrow> (case collect_uids cs of Inl e \<Rightarrow> Inl e | Inr us \<Rightarrow> Inr (u # us)))
          else collect_uids cs)"

definition delete_comment_q :: "string \<Rightarrow> string" where
  "delete_comment_q comment_text =
     ''{ comments(func: anyoftext(text, '' @ [dq] @ comment_text @ [dq] @ '')) { uid } }''"

text \<open>
  The result is what the Python function returns: \<open>Some 0\<close> for \<^verbatim>\<open>return 0\<close>,
  \<open>None\<close> where the function falls off its end.
\<close>

definition delete_comment ::
  "'db client \<Rightarrow> (string \<Rightarrow> exn + json) \<Rightarrow> string \<Rightarrow> (int option, 'db) prog" where
  "delete_comment cl loads comment_text =
     and_then (client_txn True) (\<lambda>txn.
     and_then
       (try_finally
          (and_then (txn_query cl txn (delete_comment_q comment_text)) (\<lambda>res.
           and_then (lift (loads res)) (\<lambda>data.
           and_then (lift (py_get data ''comments'' (JArr []))) (\<lambda>comments.
           and_then (lift (py_iter comments)) (\<lambda>cs.
           lift (collect_uids cs))))))
          (txn_discard txn))
       (\<lambda>uids.
          if uids = [] then
            and_then (print_text (''No comments found matching: '' @ [sq] @ comment_text @ [sq]))
              (\<lambda>_. ret (Some 0))
          else
            and_then (client_txn False) (\<lambda>txn2.
            and_then
              (try_finally
                 (and_then
                    (print_text (''Deleting '' @ show_nat (length uids)
                       @ '' comment(s) matching: '' @ [sq] @ comment_text @ [sq])) (\<lambda>_.
                  and_then (txn_mutate cl txn2
                              (DelObj (JArr (map (\<lambda>uid. JObj [(''uid'', uid)]) uids)))) (\<lambda>_.
                  txn_commit cl txn2)))
                 (txn_discard txn2))
              (\<lambda>_. ret None))))"

subsection \<open>Menu option 8 of \<^verbatim>\<open>main\<close>\<close>

text \<open>
  The two lines typed at the prompts are the arguments \<open>first\<close> and \<open>offset\<close>;
  Python's \<^verbatim>\<open>int\<close> on text is the parameter \<open>py_int\<close>.
\<close>

definition paged_menu ::
  "'db client \<Rightarrow> (string \<Rightarrow> exn + json) \<Rightarrow> (string \<Rightarrow> exn + int) \<Rightarrow> string \<Rightarrow> string
     \<Rightarrow> (unit, 'db) prog" where
  "paged_menu cl loads py_int first offset =
     and_then
       (try_except
          (and_then (lift (py_int first)) (\<lambda>first_i.
           and_then (lift (py_int offset)) (\<lambda>offset_i.
           ret (first_i, offset_i))))
          (\<lambda>e. and_then (print_text ''Invalid pagination values; using defaults.'')
                  (\<lambda>_. ret (2, 0))))
       (\<lambda>(first_i, offset_i).
          and_then (query_videos_paged cl loads first_i offset_i) (\<lambda>results.
            if \<not> falsy results then emit (Print (Dump results))
            else print_text ''No videos on that page.''))"

subsection \<open>Notions used to state the properties\<close>

text \<open>
  A lookup as one step: the read-only query followed by the extraction of the first uid.
\<close>

definition resolve ::
  "'db client \<Rightarrow> (string \<Rightarrow> exn + json) \<Rightarrow> string \<Rightarrow> string \<Rightarrow> (json, 'db) prog" where
  "resolve cl loads q key =
     and_then (lookup_query cl q) (\<lambda>res. lift (first_uid_from_query loads res key))"

text \<open>What a query text asks the engine to do with an attribute and a value.\<close>

definition uses_eq :: "string \<Rightarrow> string \<Rightarrow> string \<Rightarrow> bool" where
  "uses_eq attr v q =
     contains_str (''(func: eq('' @ attr @ '', '' @ [dq] @ v @ [dq] @ ''))'') q"

definition uses_anyoftext :: "string \<Rightarrow> string \<Rightarrow> string \<Rightarrow> bool" where
  "uses_anyoftext attr v q =
     contains_str (''(func: anyoftext('' @ attr @ '', '' @ [dq] @ v @ [dq] @ ''))'') q"

definition relationship_specs :: "rel_spec list" where
  "relationship_specs =
     [comment_replies_comment, comment_replies_video, playlist_contains_video,
      user_comments, user_creates_playlist, user_likes_comment, user_likes_video,
      user_posts_video, user_saves_video]"

text \<open>
  Every double quote of a text is preceded by a backslash (\<open>prev\<close> tells whether the
  character before the text is a backslash).
\<close>

fun quotes_escaped_from :: "bool \<Rightarrow> string \<Rightarrow> bool" where
  "quotes_escaped_from prev [] = True"
| "quotes_escaped_from prev (c # cs) =
     ((c = dq \<longrightarrow> prev) \<and> quotes_escaped_from (c = bsl) cs)"

definition quotes_escaped :: "string \<Rightarrow> bool" where
  "quotes_escaped s = quotes_escaped_from False s"

text \<open>The temporary reference of a node record, and the blank-node names of a batch.\<close>

fun temp_id :: "json \<Rightarrow> string" where
  "temp_id (JObj kvs) = (case map_of kvs ''uid'' of Some (JStr s) \<Rightarrow> s | _ \<Rightarrow> [])"
| "temp_id _ = []"

definition blank_names :: "json list \<Rightarrow> string list" where
  "blank_names recs = map (\<lambda>r. drop 2 (temp_id r)) recs"


text \<open>A transaction of a trace is released when the trace commits or discards it.\<close>

definition released :: "event list \<Rightarrow> nat \<Rightarrow> bool" where
  "released tr t = (Commit t \<in> set tr \<or> Discard t \<in> set tr)"

fun opened_txns :: "event list \<Rightarrow> nat list" where
  "opened_txns [] = []"
| "opened_txns (TxnOpen t ro # evs) = t # opened_txns evs"
| "opened_txns (ev # evs) = opened_txns evs"

definition all_released :: "event list \<Rightarrow> bool" where
  "all_released tr = list_all (released tr) (opened_txns tr)"

fun is_mutate :: "event \<Rightarrow> bool" where
  "is_mutate (Mutate t m) = True"
| "is_mutate ev = False"

fun is_txn_event :: "event \<Rightarrow> bool" where
  "is_txn_event (TxnOpen t ro) = True"
| "is_txn_event (Commit t) = True"
| "is_txn_event (Discard t) = True"
| "is_txn_event ev = False"

subsection \<open>A scripted client, for examples\<close>

text \<open>
  An engine that answers each query from a table (and \<^verbatim>\<open>{}\<close> otherwise), accepts every
  mutation, replying with one identifier per blank node, and commits without error;
  and a parser that knows the responses of a table.
\<close>

definition scripted_uids :: "mutation \<Rightarrow> (string \<times> string) list" where
  "scripted_uids m =
     (case m of
        SetObj (JArr recs) \<Rightarrow> map (\<lambda>n. (n, ''0x'' @ n)) (blank_names recs)
      | _ \<Rightarrow> [])"

definition scripted_client :: "(string \<times> string) list \<Rightarrow> unit client" where
  "scripted_client answers =
     \<lparr> run_query = (\<lambda>s t q. (Inr (case map_of answers q of None \<Rightarrow> ''{}'' | Some r \<Rightarrow> r), s)),
       run_mutate = (\<lambda>s t m. (Inr (scripted_uids m), s)),
       run_commit = (\<lambda>s t. (Inr (), s)) \<rparr>"

definition scripted_loads :: "(string \<times> json) list \<Rightarrow> string \<Rightarrow> exn + json" where
  "scripted_loads known s =
     (case map_of known s of None \<Rightarrow> Inl JSONDecodeError | Some v \<Rightarrow> Inr v)"

definition start_world :: "(string \<times> row list) list \<Rightarrow> unit world" where
  "start_world fs = \<lparr> files = map_of fs, server = (), next_txn = 0, trace = [] \<rparr>"

text \<open>\<^verbatim>\<open>int\<close> on the decimal digits of a non-negative number, raising on anything else.\<close>

definition digits_int :: "string \<Rightarrow> exn + int" where
  "digits_int s =
     (if s \<noteq> [] \<and> list_all (\<lambda>c. (48::nat) \<le> of_char c \<and> of_char c \<le> (57::nat)) s
      then Inr (foldl (\<lambda>acc c. 10 * acc + (int (of_char c) - 48)) 0 s)
      else Inl ValueError)"

text \<open>Response texts of the examples, and what \<^verbatim>\<open>json.loads\<close> makes of them.\<close>

definition quoted :: "string \<Rightarrow> string" where
  "quoted s = dq # s @ [dq]"

definition no_user_json :: string where
  "no_user_json = ''{'' @ quoted ''user'' @ '':[]}''"

definition user_hit_json :: string where
  "user_hit_json =
     ''{'' @ quoted ''user'' @ '':[{'' @ quoted ''uid'' @ '':'' @ quoted ''0x1'' @ ''}]}''"

definition video_hits_json :: string where
  "video_hits_json =
     ''{'' @ quoted ''video'' @ '':[{'' @ quoted ''uid'' @ '':'' @ quoted ''0x2'' @ ''},{''
       @ quoted ''uid'' @ '':'' @ quoted ''0x3'' @ ''}]}''"

definition comment_hit_json :: string where
  "comment_hit_json =
     ''{'' @ quoted ''comment'' @ '':[{'' @ quoted ''uid'' @ '':'' @ quoted ''0x4'' @ ''}]}''"

definition two_comments_json :: string where
  "two_comments_json =
     ''{'' @ quoted ''comments'' @ '':[{'' @ quoted ''uid'' @ '':'' @ quoted ''0x4'' @ ''},{''
       @ quoted ''uid'' @ '':'' @ quoted ''0x5'' @ ''}]}''"

definition example_known :: "(string \<times> json) list" where
  "example_known =
     [(''{}'', JObj []),
      (no_user_json, JObj [(''user'', JArr [])]),
      (user_hit_json, JObj [(''user'', JArr [JObj [(''uid'', JStr ''0x1'')]])]),
      (video_hits_json,
         JObj [(''video'', JArr [JObj [(''uid'', JStr ''0x2'')], JObj [(''uid'', JStr ''0x3'')]])]),
      (comment_hit_json, JObj [(''comment'', JArr [JObj [(''uid'', JStr ''0x4'')]])]),
      (two_comments_json,
         JObj [(''comments'', JArr [JObj [(''uid'', JStr ''0x4'')], JObj [(''uid'', JStr ''0x5'')]])])]"

definition example_answers :: "(string \<times> string) list" where
  "example_answers =
     [(q_eq ''user'' ''username'' ''ana'', user_hit_json),
      (q_eq ''user'' ''username'' ''bob'', no_user_json),
      (q_eq ''video'' ''title'' ''intro'', video_hits_json),
      (q_eq_compact ''comment'' ''text'' ''hello'', comment_hit_json),
      (delete_comment_q ''hello'', two_comments_json)]"

definition posts_files :: "(string \<times> row list) list" where
  "posts_files =
     [(''user_posts_video.csv'',
         [[(''username'', ''ana''), (''title'', ''intro'')]])]"

definition replies_files :: "(string \<times> row list) list" where
  "replies_files =
     [(''comment_replies_comment.csv'',
         [[(''comment_text'', ''hello''), (''replied_to_text'', ''hello'')]])]"

definition broken_playlists_files :: "(string \<times> row list) list" where
  "broken_playlists_files =
     map (\<lambda>p. (p, if p = PLAYLISTS_PATH ''/app'' then [[(''name'', ''mix'')]] else []))
       (required_files ''/app'')"


declare show_nat.simps [simp del]

section \<open>Basic facts\<close>

lemmas prog_defs = ret_def raise_exn_def lift_def and_then_def try_finally_def try_except_def
  emit_def print_text_def client_txn_def txn_query_def txn_mutate_def txn_commit_def
  txn_discard_def open_csv_def

lemmas path_defs = required_files_def COMMENTS_PATH_def PLAYLISTS_PATH_def USERS_PATH_def
  VIDEOS_PATH_def COMMENT_REPLIES_COMMENT_def COMMENT_REPLIES_VIDEO_def
  PLAYLIST_CONTAINS_VIDEO_def USER_COMMENTS_def USER_CREATES_PLAYLIST_def
  USER_LIKES_COMMENT_def USER_LIKES_VIDEO_def USER_POSTS_VIDEO_def USER_SAVES_VIDEO_def
  NODES_DATA_PATH_def EDGES_DATA_PATH_def path_join_def

subsection \<open>Decimal rendering is injective\<close>








subsection \<open>Node batches\<close>

lemma temp_id_node_record [simp]:
  "temp_id (node_record tag dtype i kvs) = ''_:'' @ tag @ show_nat i"
  by (simp add: node_record_def)






subsection \<open>Sequences of load steps\<close>

lemma run_steps_append:
  "run_steps (xs @ ys) = and_then (run_steps xs) (\<lambda>_. run_steps ys)"
  by (induction xs) (auto simp: and_then_def ret_def fun_eq_iff split: prod.splits sum.splits)

section \<open>The uid-extraction helper\<close>

lemma first_uid_never_raises: "\<exists>v. first_uid_from_query loads s k = Inr v"
  by (simp add: first_uid_from_query_def split: sum.split)

text \<open>
  Claim C10. The helper is total and never raises: for every parser, input string and key
  it returns a value. On valid JSON holding a non-empty list of objects under the key it
  returns the \<^verbatim>\<open>uid\<close> of the first one; it returns \<^verbatim>\<open>None\<close> when the JSON is
  malformed, the key is absent, the list is empty, or the first item has no \<^verbatim>\<open>uid\<close>.
\<close>

theorem first_uid_from_query_total:
  "(\<exists>v. first_uid_from_query loads s k = Inr v)
   \<and> (loads s = Inr (JObj kvs) \<and> map_of kvs k = Some (JArr (JObj item # rest))
        \<and> map_of item ''uid'' = Some u
      \<longrightarrow> first_uid_from_query loads s k = Inr u)
   \<and> (loads s = Inl e \<longrightarrow> first_uid_from_query loads s k = Inr JNull)
   \<and> (loads s = Inr (JObj kvs) \<and> map_of kvs k = None
      \<longrightarrow> first_uid_from_query loads s k = Inr JNull)
   \<and> (loads s = Inr (JObj kvs) \<and> map_of kvs k = Some (JArr [])
      \<longrightarrow> first_uid_from_query loads s k = Inr JNull)
   \<and> (loads s = Inr (JObj kvs) \<and> map_of kvs k = Some (JArr (JObj item # rest))
        \<and> map_of item ''uid'' = None
      \<longrightarrow> first_uid_from_query loads s k = Inr JNull)"
  by (simp add: first_uid_from_query_def first_uid_body_def split: sum.split)

theorem first_uid_from_query_total_witness:
  "first_uid_from_query
     (scripted_loads [(''r'', JObj [(''user'', JArr [JObj [(''uid'', JStr ''0x1'')]])])])
     ''r'' ''user'' = Inr (JStr ''0x1'')
   \<and> first_uid_from_query (scripted_loads []) ''not json'' ''user'' = Inr JNull
   \<and> first_uid_from_query (scripted_loads [(''r'', JObj [(''user'', JArr [])])])
       ''r'' ''user'' = Inr JNull"
  using
    first_uid_from_query_total[where
      loads = "scripted_loads [(''r'', JObj [(''user'', JArr [JObj [(''uid'', JStr ''0x1'')]])])]"
      and s = "''r''" and k = "''user''"
      and kvs = "[(''user'', JArr [JObj [(''uid'', JStr ''0x1'')]])]"
      and item = "[(''uid'', JStr ''0x1'')]" and rest = "[]" and u = "JStr ''0x1''"]
    first_uid_from_query_total[where loads = "scripted_loads []" and s = "''not json''"
      and k = "''user''" and e = JSONDecodeError]
    first_uid_from_query_total[where
      loads = "scripted_loads [(''r'', JObj [(''user'', JArr [])])]"
      and s = "''r''" and k = "''user''" and kvs = "[(''user'', JArr [])]"]
  by (simp add: scripted_loads_def)

section \<open>The load orchestrator\<close>

text \<open>
  Claim C5. When a required source file is missing, \<^verbatim>\<open>create_data\<close> reports one
  aggregated error that lists exactly the absent paths; it opens no file, opens no
  transaction and issues no mutation: the only effect is the two lines of the report.
\<close>

theorem create_data_missing_files:
  assumes "f \<in> set (required_files project_root)" and "files w f = None"
  shows "create_data cl loads project_root w =
           (Inr (), w\<lparr>trace := trace w @
              [Print (ErrorLoadingData (FileNotFoundError (missing_files project_root w))),
               Print (Traceback (FileNotFoundError (missing_files project_root w)))]\<rparr>)
         \<and> f \<in> set (missing_files project_root w)
         \<and> set (missing_files project_root w)
             = {p \<in> set (required_files project_root). files w p = None}"
proof -
  have m: "f \<in> set (missing_files project_root w)"
    using assms by (simp add: missing_files_def)
  then have ne: "missing_files project_root w \<noteq> []" by auto
  show ?thesis using m ne
    by (auto simp add: create_data_def try_except_def raise_exn_def log_load_error_def
          and_then_def emit_def Let_def missing_files_def)
qed

theorem create_data_missing_files_witness:
  "COMMENTS_PATH ''/app'' \<in> set (required_files ''/app'')
   \<and> files (start_world []) (COMMENTS_PATH ''/app'') = None
   \<and> create_data (scripted_client []) (scripted_loads []) ''/app'' (start_world []) =
       (Inr (), (start_world [])\<lparr>trace :=
          [Print (ErrorLoadingData (FileNotFoundError (required_files ''/app''))),
           Print (Traceback (FileNotFoundError (required_files ''/app'')))]\<rparr>)"
proof -
  have h1: "COMMENTS_PATH ''/app'' \<in> set (required_files ''/app'')"
    by (simp add: required_files_def)
  have h2: "files (start_world []) (COMMENTS_PATH ''/app'') = None"
    by (simp add: start_world_def)
  have m: "missing_files ''/app'' (start_world []) = required_files ''/app''"
    by (simp add: missing_files_def start_world_def)
  have t: "trace (start_world []) = []"
    by (simp add: start_world_def)
  show ?thesis
    using create_data_missing_files[OF h1 h2, of "scripted_client []" "scripted_loads []"] h1 h2
    by (simp add: m t)
qed

text \<open>
  Claim C1, as amended. \<^verbatim>\<open>create_data\<close> never raises. When the pre-flight check passes
  and a load step raises, the exception is caught and logged, and the run ends there: the
  final world is the world the failing step left, plus the two lines of the report. No
  later step is executed.
\<close>

theorem create_data_stops_at_failing_step:
  assumes "missing_files project_root w = []"
    and "k < length (load_steps cl loads project_root)"
    and "run_steps (take k (load_steps cl loads project_root)) w = (Inr (), w1)"
    and "(load_steps cl loads project_root ! k) w1 = (Inl e, w2)"
  shows "create_data cl loads project_root w =
           (Inr (), w2\<lparr>trace := trace w2 @ [Print (ErrorLoadingData e), Print (Traceback e)]\<rparr>)"
proof -
  let ?L = "load_steps cl loads project_root"
  have "?L = take k ?L @ (?L ! k) # drop (Suc k) ?L"
    using assms(2) by (simp add: id_take_nth_drop)
  then have "run_steps ?L w = run_steps (take k ?L @ (?L ! k) # drop (Suc k) ?L) w"
    by simp
  also have "\<dots> = (Inl e, w2)"
    using assms(3,4) by (simp add: run_steps_append and_then_def)
  finally have "run_steps ?L w = (Inl e, w2)" .
  then show ?thesis using assms(1)
    by (simp add: create_data_def try_except_def log_load_error_def and_then_def emit_def)
qed

theorem create_data_stops_at_failing_step_witness:
  "missing_files ''/app'' (start_world broken_playlists_files) = []
   \<and> (1::nat) < length (load_steps (scripted_client []) (scripted_loads []) ''/app'')
   \<and> fst (run_steps (take 1 (load_steps (scripted_client []) (scripted_loads []) ''/app''))
            (start_world broken_playlists_files)) = Inr ()
   \<and> fst ((load_steps (scripted_client []) (scripted_loads []) ''/app'' ! 1)
            (snd (run_steps (take 1 (load_steps (scripted_client []) (scripted_loads []) ''/app''))
                    (start_world broken_playlists_files)))) = Inl (KeyError ''title'')
   \<and> fst (create_data (scripted_client []) (scripted_loads []) ''/app''
            (start_world broken_playlists_files)) = Inr ()
   \<and> trace (snd (create_data (scripted_client []) (scripted_loads []) ''/app''
                    (start_world broken_playlists_files)))
       = trace (snd ((load_steps (scripted_client []) (scripted_loads []) ''/app'' ! 1)
            (snd (run_steps (take 1 (load_steps (scripted_client []) (scripted_loads []) ''/app''))
                    (start_world broken_playlists_files)))))
         @ [Print (ErrorLoadingData (KeyError ''title'')), Print (Traceback (KeyError ''title''))]"
proof -
  let ?L = "load_steps (scripted_client []) (scripted_loads []) ''/app''"
  let ?w = "start_world broken_playlists_files"
  have h1: "missing_files ''/app'' ?w = []" by code_simp
  have h2: "(1::nat) < length ?L" by (simp add: load_steps_def)
  have f3: "fst (run_steps (take 1 ?L) ?w) = Inr ()" by code_simp
  have f4: "fst ((?L ! 1) (snd (run_steps (take 1 ?L) ?w))) = Inl (KeyError ''title'')"
    by code_simp
  have h3: "run_steps (take 1 ?L) ?w = (Inr (), snd (run_steps (take 1 ?L) ?w))"
    using f3 by (simp add: prod_eq_iff)
  have h4: "(?L ! 1) (snd (run_steps (take 1 ?L) ?w))
              = (Inl (KeyError ''title''), snd ((?L ! 1) (snd (run_steps (take 1 ?L) ?w))))"
    using f4 by (simp add: prod_eq_iff)
  show ?thesis
    using create_data_stops_at_failing_step[OF h1 h2 h3 h4] h1 h2 f3 f4 by simp
qed

text \<open>
  Claim C1 as stated fails: with every required file present, a failure while loading
  playlists ends the run; the users and videos files are never opened.
\<close>

theorem create_data_later_steps_counterexample:
  "missing_files ''/app'' (start_world broken_playlists_files) = []
   \<and> FileOpen (PLAYLISTS_PATH ''/app'')
       \<in> set (trace (snd (create_data (scripted_client []) (scripted_loads []) ''/app''
                            (start_world broken_playlists_files))))
   \<and> Print (ErrorLoadingData (KeyError ''title''))
       \<in> set (trace (snd (create_data (scripted_client []) (scripted_loads []) ''/app''
                            (start_world broken_playlists_files))))
   \<and> FileOpen (USERS_PATH ''/app'')
       \<notin> set (trace (snd (create_data (scripted_client []) (scripted_loads []) ''/app''
                            (start_world broken_playlists_files))))
   \<and> FileOpen (VIDEOS_PATH ''/app'')
       \<notin> set (trace (snd (create_data (scripted_client []) (scripted_loads []) ''/app''
                            (start_world broken_playlists_files))))"
  by code_simp

section \<open>Node loaders\<close>

text \<open>
  Whatever the outcome, a node load opens exactly one transaction, sends at most one
  mutation and discards the transaction at the end.
\<close>

lemma load_nodes_one_transaction:
  "\<exists>evs. trace (snd (load_nodes cl tag label dtype cols file_path w))
            = trace w @ TxnOpen (next_txn w) False # evs
     \<and> opened_txns evs = [] \<and> length (filter is_mutate evs) \<le> 1
     \<and> Discard (next_txn w) \<in> set evs"
  by (auto simp add: load_nodes_def prog_defs split: sum.splits prod.splits option.splits)



section \<open>Relationship loaders\<close>

lemma lookup_query_effect:
  "lookup_query cl q w = (r, w1) \<Longrightarrow>
     trace w1 = trace w @ [TxnOpen (next_txn w) True, Query (next_txn w) q]
     \<and> next_txn w1 = next_txn w + 1
     \<and> run_query cl (server w) (next_txn w) q = (r, server w1)"
  by (auto simp add: lookup_query_def prog_defs split: prod.splits)

lemma resolve_Inr:
  "resolve cl loads q key w = (Inr u, w1) \<Longrightarrow>
     \<exists>res. lookup_query cl q w = (Inr res, w1) \<and> first_uid_from_query loads res key = Inr u"
  by (auto simp add: resolve_def and_then_def lift_def split: prod.splits sum.splits)

lemma rel_rows_step:
  "rel_row cl loads sp row w = (Inr (), w') \<Longrightarrow>
     rel_rows cl loads sp (row # rows) w = rel_rows cl loads sp rows w'"
  by (simp add: and_then_def)

lemma first_uid_hit:
  "loads s = Inr (JObj kvs) \<Longrightarrow> map_of kvs k = Some (JArr (JObj item # rest)) \<Longrightarrow>
   map_of item ''uid'' = Some u \<Longrightarrow> first_uid_from_query loads s k = Inr u"
  by (simp add: first_uid_from_query_def first_uid_body_def)

lemma create_edge_trace:
  "\<exists>evs. trace (snd (create_edge cl sp a b ua ub w))
      = trace w @ [TxnOpen (next_txn w) False, Print (Text (progress sp a b)),
                   Mutate (next_txn w) (edge_mutation sp ua ub)] @ evs"
  by (auto simp add: create_edge_def prog_defs split: sum.splits prod.splits)

lemma contains_str_append: "contains_str p (xs @ p @ ys)"
proof (induction xs)
  case Nil
  have t: "take (length p) (p @ ys) = p" by simp
  show ?case
  proof (cases "p @ ys")
    case Nil
    then show ?thesis by simp
  next
    case (Cons c cs)
    then have "take (length p) (c # cs) = p" using t by simp
    then show ?thesis using Cons by simp
  qed
next
  case (Cons x xs)
  then show ?case by simp
qed

lemma uses_eq_q_eq: "uses_eq attr v (q_eq block attr v)"
proof -
  have "q_eq block attr v
          = (''{ '' @ block) @ (''(func: eq('' @ attr @ '', '' @ [dq] @ v @ [dq] @ ''))'') @ '' { uid } }''"
    by (simp add: q_eq_def)
  then show ?thesis unfolding uses_eq_def by (simp only: contains_str_append)
qed

lemma uses_eq_q_eq_compact: "uses_eq attr v (q_eq_compact block attr v)"
proof -
  have "q_eq_compact block attr v
          = (''{'' @ block) @ (''(func: eq('' @ attr @ '', '' @ [dq] @ v @ [dq] @ ''))'') @ ''{uid}}''"
    by (simp add: q_eq_compact_def)
  then show ?thesis unfolding uses_eq_def by (simp only: contains_str_append)
qed

lemma uses_anyoftext_q: "uses_anyoftext attr v (q_anyoftext block attr v)"
proof -
  have "q_anyoftext block attr v
          = (''{ '' @ block) @ (''(func: anyoftext('' @ attr @ '', '' @ [dq] @ v @ [dq] @ ''))'') @ '' { uid } }''"
    by (simp add: q_anyoftext_def)
  then show ?thesis unfolding uses_anyoftext_def by (simp only: contains_str_append)
qed

lemma rel_row_resolved:
  assumes ca: "row_get row (col_a sp) = Inr a" and cb: "row_get row (col_b sp) = Inr b"
    and la: "lookup_query cl (query_a sp a) w = (Inr res_a, w1)"
    and ua: "first_uid_from_query loads res_a (key_a sp) = Inr uid_a" and na: "uid_a \<noteq> JNull"
    and lb: "lookup_query cl (query_b sp b) w1 = (Inr res_b, w2)"
    and ub: "first_uid_from_query loads res_b (key_b sp) = Inr uid_b" and nb: "uid_b \<noteq> JNull"
  shows "rel_row cl loads sp row w = create_edge cl sp a b uid_a uid_b w2"
  using assms by (cases "both_first sp") (simp_all add: rel_row_def and_then_def lift_def)

text \<open>
  Claim C2. In every relationship load, for a row that has both columns and whose
  lookups return: when a lookup yields no uid (zero matches), the row produces no
  mutation, a warning is printed, no exception is raised and the loop goes on with the
  remaining rows. (The second lookup is made only when the first one yielded a uid, or
  always in the two loaders that send both queries first.)
\<close>

theorem unresolved_row_skipped:
  assumes ca: "row_get row (col_a sp) = Inr a" and cb: "row_get row (col_b sp) = Inr b"
    and A: "resolve cl loads (query_a sp a) (key_a sp) w = (Inr uid_a, w1)"
    and B: "uid_a \<noteq> JNull \<or> both_first sp \<Longrightarrow>
              resolve cl loads (query_b sp b) (key_b sp) w1 = (Inr uid_b, w2)"
    and none: "uid_a = JNull \<or> uid_b = JNull"
  shows "\<exists>w' evs. rel_row cl loads sp row w = (Inr (), w')
           \<and> trace w' = trace w @ evs
           \<and> filter is_mutate evs = []
           \<and> (Print (Text (warn_a sp a)) \<in> set evs \<or> Print (Text (warn_b sp b)) \<in> set evs)
           \<and> rel_rows cl loads sp (row # rows) w = rel_rows cl loads sp rows w'"
proof -
  from resolve_Inr[OF A] obtain res_a where
    la: "lookup_query cl (query_a sp a) w = (Inr res_a, w1)"
    and ua: "first_uid_from_query loads res_a (key_a sp) = Inr uid_a" by blast
  note ta = lookup_query_effect[OF la]
  let ?pa = "w1\<lparr>trace := trace w1 @ [Print (Text (warn_a sp a))]\<rparr>"
  show ?thesis
  proof (cases "uid_a = JNull \<and> \<not> both_first sp")
    case True
    have r: "rel_row cl loads sp row w = (Inr (), ?pa)"
      using True ca cb la ua
      by (simp add: rel_row_def and_then_def lift_def print_text_def emit_def)
    let ?evs = "[TxnOpen (next_txn w) True, Query (next_txn w) (query_a sp a),
                 Print (Text (warn_a sp a))]"
    have t: "trace ?pa = trace w @ ?evs"
      using ta by simp
    have m: "filter is_mutate ?evs = []" by simp
    have p: "Print (Text (warn_a sp a)) \<in> set ?evs \<or> Print (Text (warn_b sp b)) \<in> set ?evs"
      by simp
    from r t m p rel_rows_step[OF r, of rows] show ?thesis by blast
  next
    case False
    then have "uid_a \<noteq> JNull \<or> both_first sp" by blast
    from B[OF this] have B': "resolve cl loads (query_b sp b) (key_b sp) w1 = (Inr uid_b, w2)" .
    from resolve_Inr[OF B'] obtain res_b where
      lb: "lookup_query cl (query_b sp b) w1 = (Inr res_b, w2)"
      and ub: "first_uid_from_query loads res_b (key_b sp) = Inr uid_b" by blast
    note tb = lookup_query_effect[OF lb]
    let ?w' = "w2\<lparr>trace := trace w2 @
                 [Print (Text (if uid_a = JNull then warn_a sp a else warn_b sp b))]\<rparr>"
    have r: "rel_row cl loads sp row w = (Inr (), ?w')"
      using False none ca cb la ua lb ub
      by (cases "both_first sp")
         (auto simp add: rel_row_def and_then_def lift_def print_text_def emit_def)
    let ?evs = "[TxnOpen (next_txn w) True, Query (next_txn w) (query_a sp a),
                 TxnOpen (next_txn w1) True, Query (next_txn w1) (query_b sp b),
                 Print (Text (if uid_a = JNull then warn_a sp a else warn_b sp b))]"
    have t: "trace ?w' = trace w @ ?evs"
      using ta tb by simp
    have m: "filter is_mutate ?evs = []" by simp
    have p: "Print (Text (warn_a sp a)) \<in> set ?evs \<or> Print (Text (warn_b sp b)) \<in> set ?evs"
      by simp
    from r t m p rel_rows_step[OF r, of rows] show ?thesis by blast
  qed
qed

theorem unresolved_row_skipped_witness:
  "row_get [(''username'', ''bob''), (''title'', ''intro'')] (col_a user_posts_video) = Inr ''bob''
   \<and> fst (resolve (scripted_client example_answers) (scripted_loads example_known)
             (query_a user_posts_video ''bob'') (key_a user_posts_video) (start_world []))
       = Inr JNull
   \<and> fst (rel_row (scripted_client example_answers) (scripted_loads example_known)
             user_posts_video [(''username'', ''bob''), (''title'', ''intro'')] (start_world []))
       = Inr ()
   \<and> filter is_mutate
        (trace (snd (rel_row (scripted_client example_answers) (scripted_loads example_known)
             user_posts_video [(''username'', ''bob''), (''title'', ''intro'')] (start_world []))))
       = []"
proof -
  let ?cl = "scripted_client example_answers" and ?ld = "scripted_loads example_known"
  let ?row = "[(''username'', ''bob''), (''title'', ''intro'')]"
  let ?w = "start_world [] :: unit world"
  let ?ra = "resolve ?cl ?ld (query_a user_posts_video ''bob'') (key_a user_posts_video) ?w"
  let ?rb = "resolve ?cl ?ld (query_b user_posts_video ''intro'') (key_b user_posts_video) (snd ?ra)"
  have ca: "row_get ?row (col_a user_posts_video) = Inr ''bob''" by code_simp
  have cb: "row_get ?row (col_b user_posts_video) = Inr ''intro''" by code_simp
  have fa: "fst ?ra = Inr JNull" by code_simp
  have fb: "fst ?rb = Inr (JStr ''0x2'')" by code_simp
  have A: "?ra = (Inr JNull, snd ?ra)" using fa by (simp add: prod_eq_iff)
  have B: "JNull \<noteq> JNull \<or> both_first user_posts_video \<Longrightarrow> ?rb = (Inr (JStr ''0x2''), snd ?rb)"
    using fb by (simp add: prod_eq_iff)
  have t: "trace ?w = []" by (simp add: start_world_def)
  from unresolved_row_skipped[OF ca cb A B, of "[]"] obtain w' evs where
    r: "rel_row ?cl ?ld user_posts_video ?row ?w = (Inr (), w')"
    and tr: "trace w' = trace ?w @ evs" and m: "filter is_mutate evs = []"
    by blast
  from r tr m t have "fst (rel_row ?cl ?ld user_posts_video ?row ?w) = Inr ()
    \<and> filter is_mutate (trace (snd (rel_row ?cl ?ld user_posts_video ?row ?w))) = []"
    by simp
  then show ?thesis using ca fa by blast
qed

text \<open>
  What the relationship loaders do on a row whose two lookups return results: each endpoint
  is looked up in a read-only transaction and the uid of the first result is the one put
  into the edge mutation. The second part records what each loader's query text asks the
  engine: \<^verbatim>\<open>eq\<close> on usernames and titles, \<^verbatim>\<open>anyoftext\<close> on comment text in
  \<^verbatim>\<open>load_comment_replies_video\<close>, \<^verbatim>\<open>load_user_comments\<close> and
  \<^verbatim>\<open>load_user_likes_comment\<close>, and \<^verbatim>\<open>eq\<close> on comment text in
  \<^verbatim>\<open>load_comment_replies_comment\<close>.
\<close>

theorem edge_uses_first_result:
  assumes ca: "row_get row (col_a sp) = Inr a" and cb: "row_get row (col_b sp) = Inr b"
    and qa: "run_query cl (server w) (next_txn w) (query_a sp a) = (Inr res_a, s1)"
    and pa: "loads res_a = Inr (JObj kvs_a)"
    and ia: "map_of kvs_a (key_a sp) = Some (JArr (JObj item_a # rest_a))"
    and ua: "map_of item_a ''uid'' = Some uid_a" and na: "uid_a \<noteq> JNull"
    and qb: "run_query cl s1 (next_txn w + 1) (query_b sp b) = (Inr res_b, s2)"
    and pb: "loads res_b = Inr (JObj kvs_b)"
    and ib: "map_of kvs_b (key_b sp) = Some (JArr (JObj item_b # rest_b))"
    and ub: "map_of item_b ''uid'' = Some uid_b" and nb: "uid_b \<noteq> JNull"
  shows "(\<exists>evs. trace (snd (rel_row cl loads sp row w)) = trace w @
            [TxnOpen (next_txn w) True, Query (next_txn w) (query_a sp a),
             TxnOpen (next_txn w + 1) True, Query (next_txn w + 1) (query_b sp b),
             TxnOpen (next_txn w + 2) False, Print (Text (progress sp a b)),
             Mutate (next_txn w + 2) (edge_mutation sp uid_a uid_b)] @ evs)
     \<and> uses_eq ''text'' v (query_a comment_replies_comment v)
     \<and> uses_eq ''text'' v (query_b comment_replies_comment v)
     \<and> uses_anyoftext ''text'' v (query_a comment_replies_video v)
     \<and> uses_eq ''title'' v (query_b comment_replies_video v)
     \<and> uses_eq ''title'' v (query_a playlist_contains_video v)
     \<and> uses_eq ''title'' v (query_b playlist_contains_video v)
     \<and> uses_eq ''username'' v (query_a user_comments v)
     \<and> uses_anyoftext ''text'' v (query_b user_comments v)
     \<and> uses_eq ''username'' v (query_a user_creates_playlist v)
     \<and> uses_eq ''title'' v (query_b user_creates_playlist v)
     \<and> uses_eq ''username'' v (query_a user_likes_comment v)
     \<and> uses_anyoftext ''text'' v (query_b user_likes_comment v)
     \<and> uses_eq ''username'' v (query_a user_likes_video v)
     \<and> uses_eq ''title'' v (query_b user_likes_video v)
     \<and> uses_eq ''username'' v (query_a user_posts_video v)
     \<and> uses_eq ''title'' v (query_b user_posts_video v)
     \<and> uses_eq ''username'' v (query_a user_saves_video v)
     \<and> uses_eq ''title'' v (query_b user_saves_video v)"
proof -
  let ?w1 = "w\<lparr>next_txn := next_txn w + 1, server := s1,
                 trace := trace w @ [TxnOpen (next_txn w) True, Query (next_txn w) (query_a sp a)]\<rparr>"
  let ?w2 = "?w1\<lparr>next_txn := next_txn w + 2, server := s2,
                 trace := trace ?w1 @ [TxnOpen (next_txn w + 1) True,
                                       Query (next_txn w + 1) (query_b sp b)]\<rparr>"
  have la: "lookup_query cl (query_a sp a) w = (Inr res_a, ?w1)"
    using qa by (simp add: lookup_query_def prog_defs)
  have lb: "lookup_query cl (query_b sp b) ?w1 = (Inr res_b, ?w2)"
    using qb by (simp add: lookup_query_def prog_defs)
  have fa: "first_uid_from_query loads res_a (key_a sp) = Inr uid_a"
    using pa ia ua by (simp add: first_uid_from_query_def first_uid_body_def)
  have fb: "first_uid_from_query loads res_b (key_b sp) = Inr uid_b"
    using pb ib ub by (simp add: first_uid_from_query_def first_uid_body_def)
  have r: "rel_row cl loads sp row w = create_edge cl sp a b uid_a uid_b ?w2"
    by (rule rel_row_resolved[OF ca cb la fa na lb fb nb])
  from create_edge_trace[of cl sp a b uid_a uid_b ?w2] obtain evs where
    "trace (snd (create_edge cl sp a b uid_a uid_b ?w2))
      = trace ?w2 @ [TxnOpen (next_txn ?w2) False, Print (Text (progress sp a b)),
                   Mutate (next_txn ?w2) (edge_mutation sp uid_a uid_b)] @ evs"
    by blast
  then have "trace (snd (rel_row cl loads sp row w)) = trace w @
            [TxnOpen (next_txn w) True, Query (next_txn w) (query_a sp a),
             TxnOpen (next_txn w + 1) True, Query (next_txn w + 1) (query_b sp b),
             TxnOpen (next_txn w + 2) False, Print (Text (progress sp a b)),
             Mutate (next_txn w + 2) (edge_mutation sp uid_a uid_b)] @ evs"
    unfolding r by simp
  then have dyn: "\<exists>evs. trace (snd (rel_row cl loads sp row w)) = trace w @
            [TxnOpen (next_txn w) True, Query (next_txn w) (query_a sp a),
             TxnOpen (next_txn w + 1) True, Query (next_txn w + 1) (query_b sp b),
             TxnOpen (next_txn w + 2) False, Print (Text (progress sp a b)),
             Mutate (next_txn w + 2) (edge_mutation sp uid_a uid_b)] @ evs"
    by (rule exI)
  show ?thesis
    by (intro conjI dyn)
       (simp_all add: comment_replies_comment_def comment_replies_video_def
          playlist_contains_video_def user_comments_def user_creates_playlist_def
          user_likes_comment_def user_likes_video_def user_posts_video_def
          user_saves_video_def uses_eq_q_eq uses_eq_q_eq_compact uses_anyoftext_q)
qed

theorem edge_uses_first_result_witness:
  "row_get [(''username'', ''ana''), (''title'', ''intro'')] (col_a user_likes_video) = Inr ''ana''
   \<and> scripted_loads example_known video_hits_json
       = Inr (JObj [(''video'', JArr [JObj [(''uid'', JStr ''0x2'')], JObj [(''uid'', JStr ''0x3'')]])])
   \<and> Mutate 2 (SetObj (JObj [(''uid'', JStr ''0x1''),
                              (''likes_u_v'', JArr [JObj [(''uid'', JStr ''0x2'')]])]))
       \<in> set (trace (snd (rel_row (scripted_client example_answers) (scripted_loads example_known)
             user_likes_video [(''username'', ''ana''), (''title'', ''intro'')] (start_world []))))"
proof -
  let ?cl = "scripted_client example_answers" and ?ld = "scripted_loads example_known"
  let ?row = "[(''username'', ''ana''), (''title'', ''intro'')]"
  let ?w = "start_world [] :: unit world"
  have ca: "row_get ?row (col_a user_likes_video) = Inr ''ana''" by code_simp
  have cb: "row_get ?row (col_b user_likes_video) = Inr ''intro''" by code_simp
  have qa: "run_query ?cl (server ?w) (next_txn ?w) (query_a user_likes_video ''ana'')
              = (Inr user_hit_json, ())" by code_simp
  have pa: "?ld user_hit_json = Inr (JObj [(''user'', JArr [JObj [(''uid'', JStr ''0x1'')]])])"
    by code_simp
  have ia: "map_of [(''user'', JArr [JObj [(''uid'', JStr ''0x1'')]])] (key_a user_likes_video)
              = Some (JArr (JObj [(''uid'', JStr ''0x1'')] # []))" by code_simp
  have ua: "map_of [(''uid'', JStr ''0x1'')] ''uid'' = Some (JStr ''0x1'')" by simp
  have qb: "run_query ?cl () (next_txn ?w + 1) (query_b user_likes_video ''intro'')
              = (Inr video_hits_json, ())" by code_simp
  have pb: "?ld video_hits_json
       = Inr (JObj [(''video'', JArr [JObj [(''uid'', JStr ''0x2'')], JObj [(''uid'', JStr ''0x3'')]])])"
    by code_simp
  have ib: "map_of [(''video'', JArr [JObj [(''uid'', JStr ''0x2'')], JObj [(''uid'', JStr ''0x3'')]])]
               (key_b user_likes_video)
              = Some (JArr (JObj [(''uid'', JStr ''0x2'')] # [JObj [(''uid'', JStr ''0x3'')]]))"
    by code_simp
  have ub: "map_of [(''uid'', JStr ''0x2'')] ''uid'' = Some (JStr ''0x2'')" by simp
  have n: "next_txn ?w = 0" "trace ?w = []" by (simp_all add: start_world_def)
  have e: "edge_mutation user_likes_video (JStr ''0x1'') (JStr ''0x2'')
             = SetObj (JObj [(''uid'', JStr ''0x1''),
                              (''likes_u_v'', JArr [JObj [(''uid'', JStr ''0x2'')]])])"
    by (simp add: edge_mutation_def user_likes_video_def)
  from edge_uses_first_result[OF ca cb qa pa ia ua _ qb pb ib ub]
  obtain evs where
    "trace (snd (rel_row ?cl ?ld user_likes_video ?row ?w)) = trace ?w @
            [TxnOpen (next_txn ?w) True, Query (next_txn ?w) (query_a user_likes_video ''ana''),
             TxnOpen (next_txn ?w + 1) True, Query (next_txn ?w + 1) (query_b user_likes_video ''intro''),
             TxnOpen (next_txn ?w + 2) False, Print (Text (progress user_likes_video ''ana'' ''intro'')),
             Mutate (next_txn ?w + 2) (edge_mutation user_likes_video (JStr ''0x1'') (JStr ''0x2''))] @ evs"
    by auto
  then have "Mutate 2 (SetObj (JObj [(''uid'', JStr ''0x1''),
                              (''likes_u_v'', JArr [JObj [(''uid'', JStr ''0x2'')]])]))
       \<in> set (trace (snd (rel_row ?cl ?ld user_likes_video ?row ?w)))"
    by (simp add: n e)
  then show ?thesis using ca pb by blast
qed

text \<open>
  Claim C4. Comment text is to be looked up with the full-text \<^verbatim>\<open>anyoftext\<close>, as
  \<^verbatim>\<open>load_comment_replies_video\<close>, \<^verbatim>\<open>load_user_comments\<close> and
  \<^verbatim>\<open>load_user_likes_comment\<close> do. \<^verbatim>\<open>load_comment_replies_comment\<close> does not:
  on a row with comment text \<^verbatim>\<open>hello\<close> the query it sends matches the text exactly
  with \<^verbatim>\<open>eq\<close> and holds no \<^verbatim>\<open>anyoftext\<close> at all.
\<close>

theorem comment_replies_comment_lookup_uses_eq:
  "uses_eq ''text'' ''hello'' (query_a comment_replies_comment ''hello'')
   \<and> \<not> uses_anyoftext ''text'' ''hello'' (query_a comment_replies_comment ''hello'')
   \<and> \<not> contains_str ''anyoftext'' (query_a comment_replies_comment ''hello'')
   \<and> \<not> contains_str ''anyoftext'' (query_b comment_replies_comment ''hello'')
   \<and> uses_anyoftext ''text'' ''hello'' (query_a comment_replies_video ''hello'')
   \<and> uses_anyoftext ''text'' ''hello'' (query_b user_comments ''hello'')
   \<and> uses_anyoftext ''text'' ''hello'' (query_b user_likes_comment ''hello'')
   \<and> Query 0 (''{comment(func: eq(text, '' @ quoted ''hello'' @ '')){uid}}'')
        \<in> set (trace (snd (load_comment_replies_comment (scripted_client example_answers)
              (scripted_loads example_known) ''comment_replies_comment.csv''
              (start_world replies_files))))"
  by code_simp

section \<open>Queries and deletion\<close>

lemma paged_query_defaults:
  "query_videos_paged_q 2 0
     = ''{ paged_videos(func: type(Video), first: 2, offset: 0, orderasc: title) { uid title } }''"
  by code_simp

lemma read_query_trace:
  "\<exists>evs. trace (snd (read_query cl loads q key w))
      = trace w @ [TxnOpen (next_txn w) True, Query (next_txn w) q] @ evs
     \<and> Discard (next_txn w) \<in> set evs"
  by (auto simp add: read_query_def prog_defs split: sum.splits prod.splits)

text \<open>
  Claim C9. When \<^verbatim>\<open>int\<close> fails on the first or on the offset input, menu option 8
  prints a notice and runs the paged-videos query with \<open>first = 2\<close> and \<open>offset = 0\<close>:
  the parse error is not propagated, and what the handler does from there on is what the
  query with the fallback pair does.
\<close>

theorem paged_menu_fallback:
  assumes "py_int first = Inl e1 \<or> py_int offset = Inl e2"
  shows "paged_menu cl loads py_int first offset w =
           and_then (query_videos_paged cl loads 2 0)
             (\<lambda>results. if \<not> falsy results then emit (Print (Dump results))
                         else print_text ''No videos on that page.'')
             (w\<lparr>trace := trace w @ [Print (Text ''Invalid pagination values; using defaults.'')]\<rparr>)
       \<and> (\<exists>evs. trace (snd (paged_menu cl loads py_int first offset w)) = trace w @
             [Print (Text ''Invalid pagination values; using defaults.''),
              TxnOpen (next_txn w) True,
              Query (next_txn w)
                ''{ paged_videos(func: type(Video), first: 2, offset: 0, orderasc: title) { uid title } }'']
             @ evs)"
proof -
  let ?w1 = "w\<lparr>trace := trace w @ [Print (Text ''Invalid pagination values; using defaults.'')]\<rparr>"
  let ?k = "\<lambda>results. if \<not> falsy results then emit (Print (Dump results))
                         else print_text ''No videos on that page.''"
  have eq: "paged_menu cl loads py_int first offset w
              = and_then (query_videos_paged cl loads 2 0) ?k ?w1"
    using assms
    by (cases "py_int first")
       (auto simp add: paged_menu_def and_then_def try_except_def lift_def ret_def
          print_text_def emit_def split: sum.splits)
  from read_query_trace[of cl loads "query_videos_paged_q 2 0" "''paged_videos''" ?w1]
  obtain evs where q: "trace (snd (query_videos_paged cl loads 2 0 ?w1))
      = trace ?w1 @ [TxnOpen (next_txn ?w1) True, Query (next_txn ?w1) (query_videos_paged_q 2 0)] @ evs"
    unfolding query_videos_paged_def by blast
  have "\<exists>evs'. trace (snd (and_then (query_videos_paged cl loads 2 0) ?k ?w1))
           = trace (snd (query_videos_paged cl loads 2 0 ?w1)) @ evs'"
    by (auto simp add: and_then_def emit_def print_text_def split: prod.splits sum.splits)
  then obtain evs' where "trace (snd (and_then (query_videos_paged cl loads 2 0) ?k ?w1))
           = trace (snd (query_videos_paged cl loads 2 0 ?w1)) @ evs'" by blast
  then have "trace (snd (paged_menu cl loads py_int first offset w)) = trace w @
             [Print (Text ''Invalid pagination values; using defaults.''),
              TxnOpen (next_txn w) True,
              Query (next_txn w)
                ''{ paged_videos(func: type(Video), first: 2, offset: 0, orderasc: title) { uid title } }'']
             @ (evs @ evs')"
    unfolding eq q paged_query_defaults by simp
  then have "\<exists>evs. trace (snd (paged_menu cl loads py_int first offset w)) = trace w @
             [Print (Text ''Invalid pagination values; using defaults.''),
              TxnOpen (next_txn w) True,
              Query (next_txn w)
                ''{ paged_videos(func: type(Video), first: 2, offset: 0, orderasc: title) { uid title } }'']
             @ evs"
    by (rule exI)
  with eq show ?thesis by (intro conjI)
qed

theorem paged_menu_fallback_witness:
  "digits_int ''abc'' = Inl ValueError
   \<and> Query 0 ''{ paged_videos(func: type(Video), first: 2, offset: 0, orderasc: title) { uid title } }''
       \<in> set (trace (snd (paged_menu (scripted_client example_answers) (scripted_loads example_known)
                 digits_int ''abc'' ''7'' (start_world []))))"
proof -
  let ?w = "start_world [] :: unit world"
  have h: "digits_int ''abc'' = Inl ValueError \<or> digits_int ''7'' = Inl ValueError"
    by code_simp
  have d: "digits_int ''abc'' = Inl ValueError" by code_simp
  have n: "next_txn ?w = 0" "trace ?w = []" by (simp_all add: start_world_def)
  from paged_menu_fallback[OF h, of "scripted_client example_answers" "scripted_loads example_known" ?w]
  obtain evs where "trace (snd (paged_menu (scripted_client example_answers) (scripted_loads example_known)
                 digits_int ''abc'' ''7'' ?w)) = trace ?w @
             [Print (Text ''Invalid pagination values; using defaults.''),
              TxnOpen (next_txn ?w) True,
              Query (next_txn ?w)
                ''{ paged_videos(func: type(Video), first: 2, offset: 0, orderasc: title) { uid title } }'']
             @ evs"
    by blast
  then have "Query 0 ''{ paged_videos(func: type(Video), first: 2, offset: 0, orderasc: title) { uid title } }''
       \<in> set (trace (snd (paged_menu (scripted_client example_answers) (scripted_loads example_known)
                 digits_int ''abc'' ''7'' ?w)))"
    by (simp add: n)
  with d show ?thesis by (intro conjI)
qed

text \<open>
  \<^verbatim>\<open>query_by_text\<close> and \<^verbatim>\<open>query_video_posters_reverse\<close> put a backslash before
  every double quote of their parameter.
\<close>

lemma escape_quotes_from: "quotes_escaped_from prev (escape_quotes s)"
proof (induction s arbitrary: prev)
  case Nil
  show ?case by (simp add: escape_quotes_def)
next
  case (Cons c s)
  have IH: "\<And>p. quotes_escaped_from p (concat (map (\<lambda>c. if c = dq then [bsl, dq] else [c]) s))"
    using Cons.IH by (simp add: escape_quotes_def)
  show ?case by (simp add: escape_quotes_def IH)
qed

lemma escape_quotes_escaped: "quotes_escaped (escape_quotes s)"
  by (simp add: quotes_escaped_def escape_quotes_from)

text \<open>
  Claim C6. \<^verbatim>\<open>delete_comment\<close> interpolates its parameter as it is: on the term
  \<^verbatim>\<open>say "hi"\<close> the query text holds the two quotes unescaped, where
  \<^verbatim>\<open>query_by_text\<close> on the same term escapes both.
\<close>

theorem delete_comment_query_unescaped:
  "delete_comment_q (''say '' @ quoted ''hi'')
     = ''{ comments(func: anyoftext(text, '' @ [dq] @ ''say '' @ [dq] @ ''hi'' @ [dq] @ [dq]
         @ '')) { uid } }''
   \<and> \<not> quotes_escaped (delete_comment_q (''say '' @ quoted ''hi''))
   \<and> query_by_text_q (''say '' @ quoted ''hi'')
     = ''{ comments(func: anyoftext(text, '' @ [dq] @ ''say '' @ [bsl, dq] @ ''hi'' @ [bsl, dq] @ [dq]
         @ '')) { uid text } }''"
  by code_simp

text \<open>
  Claim C7. With two comments matching the term, \<^verbatim>\<open>delete_comment\<close> deletes both
  in one mutation and then falls off its end: it returns \<^verbatim>\<open>None\<close>, not the count.
  With no match it returns 0.
\<close>

theorem delete_comment_returns_none:
  "fst (delete_comment (scripted_client example_answers) (scripted_loads example_known)
          ''hello'' (start_world [])) = Inr None
   \<and> filter is_mutate (trace (snd (delete_comment (scripted_client example_answers)
          (scripted_loads example_known) ''hello'' (start_world []))))
       = [Mutate 1 (DelObj (JArr [JObj [(''uid'', JStr ''0x4'')], JObj [(''uid'', JStr ''0x5'')]]))]
   \<and> fst (delete_comment (scripted_client example_answers) (scripted_loads example_known)
          ''nothing'' (start_world [])) = Inr (Some 0)"
  by code_simp

section \<open>Transactions released\<close>

lemma opened_txns_filter: "opened_txns (filter is_txn_event tr) = opened_txns tr"
  by (induction tr rule: opened_txns.induct) simp_all

lemma released_filter: "released (filter is_txn_event tr) = released tr"
  by (simp add: released_def fun_eq_iff)

lemma all_released_filter: "all_released (filter is_txn_event tr) = all_released tr"
  by (simp add: all_released_def opened_txns_filter released_filter)

text \<open>
  Claim C8. A relationship load of one resolvable row opens three transactions: the two
  read-only lookups (0 and 1) and the write (2). Only the write is committed and
  discarded; the lookups are left neither committed nor discarded.
\<close>

theorem lookup_transactions_left_open:
  "filter is_txn_event (trace (snd (load_user_posts_video (scripted_client example_answers)
       (scripted_loads example_known) ''user_posts_video.csv'' (start_world posts_files))))
     = [TxnOpen 0 True, TxnOpen 1 True, TxnOpen 2 False, Commit 2, Discard 2]
   \<and> \<not> all_released (trace (snd (load_user_posts_video (scripted_client example_answers)
       (scripted_loads example_known) ''user_posts_video.csv'' (start_world posts_files))))"
proof -
  let ?tr = "trace (snd (load_user_posts_video (scripted_client example_answers)
       (scripted_loads example_known) ''user_posts_video.csv'' (start_world posts_files)))"
  have e: "filter is_txn_event ?tr
     = [TxnOpen 0 True, TxnOpen 1 True, TxnOpen 2 False, Commit 2, Discard 2]"
    by code_simp
  have ne: "\<not> all_released (filter is_txn_event ?tr)"
    unfolding e by (simp add: all_released_def released_def)
  have n: "\<not> all_released ?tr"
    using ne unfolding all_released_filter .
  show ?thesis by (intro conjI e n)
qed

end
